theory Spec2Isabelle
  imports Complex_Main "HOL-Library.AList" "HOL-Library.Char_ord"
    "HOL-Library.List_Lexorder" "HOL-Library.Product_Lexorder"
begin

unbundle bit_operations_syntax

section \<open>Values, failures and dictionaries\<close>

text \<open>
  The embedding follows \<^verbatim>\<open>ddos_detector.py\<close>. Python numbers (ints and floats) are
  modelled as exact reals, so rounding of IEEE doubles is not part of the model; counters
  and packet lengths are naturals. A \<^verbatim>\<open>datetime\<close> is the integer number of
  microseconds on the wall clock, so \<^verbatim>\<open>(t - u).total_seconds() * 1000000\<close> is
  \<open>real_of_int (t - u)\<close>. Every raise of the source is a value \<open>Inl e\<close>; a NaN produced
  by numpy on an empty series is treated as a failure value as well.
\<close>

datatype failure =
  ValueError | ZeroDivisionError | TypeError | KeyError | NotANumber | OtherException
| KeyboardInterrupt | SystemExit

definition is_Exception :: "failure \<Rightarrow> bool" where
  \<comment> \<open>what \<^verbatim>\<open>except Exception\<close> catches: \<^verbatim>\<open>KeyboardInterrupt\<close> and \<^verbatim>\<open>SystemExit\<close>
      derive from \<^verbatim>\<open>BaseException\<close> only\<close>
  "is_Exception e = (e \<noteq> KeyboardInterrupt \<and> e \<noteq> SystemExit)"

datatype pyval = Num real | Str string

type_synonym features = "(string \<times> pyval) list"

definition dict_get :: "features \<Rightarrow> string \<Rightarrow> pyval \<Rightarrow> pyval" where
  \<comment> \<open>\<^verbatim>\<open>d.get(k, default)\<close>\<close>
  "dict_get d k dflt = (case map_of d k of None \<Rightarrow> dflt | Some v \<Rightarrow> v)"

definition dict_item :: "features \<Rightarrow> string \<Rightarrow> failure + pyval" where
  \<comment> \<open>\<^verbatim>\<open>d[k]\<close>\<close>
  "dict_item d k = (case map_of d k of None \<Rightarrow> Inl KeyError | Some v \<Rightarrow> Inr v)"

definition dict_set :: "features \<Rightarrow> string \<Rightarrow> pyval \<Rightarrow> features" where
  \<comment> \<open>\<^verbatim>\<open>d[k] = v\<close>: replaces in place, or appends a new key at the end\<close>
  "dict_set d k v = AList.update k v d"

definition bindE :: "failure + 'a \<Rightarrow> ('a \<Rightarrow> failure + 'b) \<Rightarrow> failure + 'b" where
  \<comment> \<open>sequencing: a raise in the first computation skips the rest\<close>
  "bindE m f = (case m of Inl e \<Rightarrow> Inl e | Inr x \<Rightarrow> f x)"

definition as_num :: "pyval \<Rightarrow> failure + real" where
  \<comment> \<open>a numeric operation on a string raises TypeError\<close>
  "as_num v = (case v of Num x \<Rightarrow> Inr x | Str _ \<Rightarrow> Inl TypeError)"

fun build_dict :: "(string \<times> (failure + real)) list \<Rightarrow> failure + features" where
  \<comment> \<open>a dict display: the entries are evaluated left to right, the first raise aborts\<close>
  "build_dict [] = Inr []"
| "build_dict ((k, Inl e) # es) = Inl e"
| "build_dict ((k, Inr v) # es) =
     (case build_dict es of Inl e \<Rightarrow> Inl e | Inr d \<Rightarrow> Inr ((k, Num v) # d))"

definition py_min :: "real list \<Rightarrow> failure + real" where
  "py_min xs = (if xs = [] then Inl ValueError else Inr (Min (set xs)))"

definition py_max :: "real list \<Rightarrow> failure + real" where
  "py_max xs = (if xs = [] then Inl ValueError else Inr (Max (set xs)))"

definition py_sum :: "real list \<Rightarrow> failure + real" where
  "py_sum xs = Inr (sum_list xs)"

definition np_mean :: "real list \<Rightarrow> failure + real" where
  "np_mean xs = (if xs = [] then Inl NotANumber else Inr (sum_list xs / real (length xs)))"

definition np_var :: "real list \<Rightarrow> failure + real" where
  \<comment> \<open>population variance (\<^verbatim>\<open>ddof=0\<close>)\<close>
  "np_var xs =
     (if xs = [] then Inl NotANumber
      else Inr (let m = sum_list xs / real (length xs)
                in sum_list (map (\<lambda>x. (x - m)\<^sup>2) xs) / real (length xs)))"

definition np_std :: "real list \<Rightarrow> failure + real" where
  "np_std xs = (case np_var xs of Inl e \<Rightarrow> Inl e | Inr v \<Rightarrow> Inr (sqrt v))"

definition truediv :: "real \<Rightarrow> real \<Rightarrow> failure + real" where
  \<comment> \<open>Python's \<^verbatim>\<open>a / b\<close>\<close>
  "truediv a b = (if b = 0 then Inl ZeroDivisionError else Inr (a / b))"

section \<open>Packets\<close>

record ip_layer =
  ip_src :: string
  ip_dst :: string
  ip_proto :: nat

record tcp_layer =
  tcp_sport :: nat
  tcp_dport :: nat
  tcp_flags :: nat

record udp_layer =
  udp_sport :: nat
  udp_dport :: nat

record packet =
  IP :: "ip_layer option"
  TCP :: "tcp_layer option"
  UDP :: "udp_layer option"
  pkt_len :: nat

section \<open>Flow\<close>

record flow =
  src_ip :: string
  dst_ip :: string
  src_port :: nat
  dst_port :: nat
  protocol :: nat
  start_time :: "int option"
  last_time :: "int option"
  fwd_packets :: nat
  bwd_packets :: nat
  fwd_bytes :: nat
  bwd_bytes :: nat
  fwd_packet_sizes :: "nat list"
  bwd_packet_sizes :: "nat list"
  fwd_iat :: "real list"
  bwd_iat :: "real list"
  last_fwd_time :: "int option"
  last_bwd_time :: "int option"
  syn_count :: nat
  ack_count :: nat
  fin_count :: nat
  rst_count :: nat
  psh_count :: nat
  urg_count :: nat

definition Flow_init :: "string \<Rightarrow> string \<Rightarrow> nat \<Rightarrow> nat \<Rightarrow> nat \<Rightarrow> flow" where
  "Flow_init s d sp dp pr =
     \<lparr>src_ip = s, dst_ip = d, src_port = sp, dst_port = dp, protocol = pr,
      start_time = None, last_time = None,
      fwd_packets = 0, bwd_packets = 0, fwd_bytes = 0, bwd_bytes = 0,
      fwd_packet_sizes = [], bwd_packet_sizes = [],
      fwd_iat = [], bwd_iat = [], last_fwd_time = None, last_bwd_time = None,
      syn_count = 0, ack_count = 0, fin_count = 0, rst_count = 0, psh_count = 0,
      urg_count = 0\<rparr>"

definition count_flags :: "flow \<Rightarrow> packet \<Rightarrow> flow" where
  \<comment> \<open>the \<^verbatim>\<open>if packet.haslayer(TCP)\<close> block of \<^verbatim>\<open>add_packet\<close>\<close>
  "count_flags self p =
     (case TCP p of
        None \<Rightarrow> self
      | Some t \<Rightarrow>
          (let flags = tcp_flags t;
               s1 = (if flags AND 2 \<noteq> 0 then self\<lparr>syn_count := syn_count self + 1\<rparr> else self);
               s2 = (if flags AND 16 \<noteq> 0 then s1\<lparr>ack_count := ack_count s1 + 1\<rparr> else s1);
               s3 = (if flags AND 1 \<noteq> 0 then s2\<lparr>fin_count := fin_count s2 + 1\<rparr> else s2);
               s4 = (if flags AND 4 \<noteq> 0 then s3\<lparr>rst_count := rst_count s3 + 1\<rparr> else s3);
               s5 = (if flags AND 8 \<noteq> 0 then s4\<lparr>psh_count := psh_count s4 + 1\<rparr> else s4)
           in (if flags AND 32 \<noteq> 0 then s5\<lparr>urg_count := urg_count s5 + 1\<rparr> else s5)))"

definition add_packet :: "flow \<Rightarrow> packet \<Rightarrow> int \<Rightarrow> bool \<Rightarrow> flow" where
  "add_packet self p timestamp is_fwd =
     (let s0 = (if start_time self = None then self\<lparr>start_time := Some timestamp\<rparr> else self);
          s1 = s0\<lparr>last_time := Some timestamp\<rparr>;
          pkt_size = pkt_len p;
          s2 =
            (if is_fwd then
               (let a = s1\<lparr>fwd_packets := fwd_packets s1 + 1,
                          fwd_bytes := fwd_bytes s1 + pkt_size,
                          fwd_packet_sizes := fwd_packet_sizes s1 @ [pkt_size]\<rparr>;
                    b = (case last_fwd_time a of
                           None \<Rightarrow> a
                         | Some l \<Rightarrow> a\<lparr>fwd_iat := fwd_iat a @ [real_of_int (timestamp - l)]\<rparr>)
                in b\<lparr>last_fwd_time := Some timestamp\<rparr>)
             else
               (let a = s1\<lparr>bwd_packets := bwd_packets s1 + 1,
                          bwd_bytes := bwd_bytes s1 + pkt_size,
                          bwd_packet_sizes := bwd_packet_sizes s1 @ [pkt_size]\<rparr>;
                    b = (case last_bwd_time a of
                           None \<Rightarrow> a
                         | Some l \<Rightarrow> a\<lparr>bwd_iat := bwd_iat a @ [real_of_int (timestamp - l)]\<rparr>)
                in b\<lparr>last_bwd_time := Some timestamp\<rparr>))
      in count_flags s2 p)"

definition get_duration :: "flow \<Rightarrow> real" where
  \<comment> \<open>microseconds\<close>
  "get_duration self =
     (case (start_time self, last_time self) of
        (Some s, Some l) \<Rightarrow> real_of_int (l - s)
      | _ \<Rightarrow> 0)"

definition duration_sec :: "flow \<Rightarrow> real" where
  \<comment> \<open>\<^verbatim>\<open>duration / 1000000 if duration > 0 else 0.001\<close>\<close>
  "duration_sec self =
     (let duration = get_duration self
      in if duration > 0 then duration / 1000000 else 0.001)"

definition extract_features :: "flow \<Rightarrow> failure + features" where
  "extract_features self =
     (let duration = get_duration self;
          dsec = duration_sec self;
          total_packets = real (fwd_packets self + bwd_packets self);
          total_bytes = real (fwd_bytes self + bwd_bytes self);
          fsz = map real (fwd_packet_sizes self);
          bsz = map real (bwd_packet_sizes self);
          all_sizes = fsz @ bsz;
          fi = fwd_iat self;
          bi = bwd_iat self;
          all_iat = fi @ bi
      in build_dict
        [(''flow_duration'', Inr duration),
         (''total_fwd_packets'', Inr (real (fwd_packets self))),
         (''total_bwd_packets'', Inr (real (bwd_packets self))),
         (''total_packets'', Inr total_packets),
         (''total_fwd_bytes'', Inr (real (fwd_bytes self))),
         (''total_bwd_bytes'', Inr (real (bwd_bytes self))),
         (''total_bytes'', Inr total_bytes),
         (''fwd_pkt_len_min'', if fsz \<noteq> [] then py_min fsz else Inr 0),
         (''fwd_pkt_len_max'', if fsz \<noteq> [] then py_max fsz else Inr 0),
         (''fwd_pkt_len_mean'', if fsz \<noteq> [] then np_mean fsz else Inr 0),
         (''fwd_pkt_len_std'', if length fsz > 1 then np_std fsz else Inr 0),
         (''bwd_pkt_len_min'', if bsz \<noteq> [] then py_min bsz else Inr 0),
         (''bwd_pkt_len_max'', if bsz \<noteq> [] then py_max bsz else Inr 0),
         (''bwd_pkt_len_mean'', if bsz \<noteq> [] then np_mean bsz else Inr 0),
         (''bwd_pkt_len_std'', if length bsz > 1 then np_std bsz else Inr 0),
         (''pkt_len_min'', if all_sizes \<noteq> [] then py_min all_sizes else Inr 0),
         (''pkt_len_max'', if all_sizes \<noteq> [] then py_max all_sizes else Inr 0),
         (''pkt_len_mean'', if all_sizes \<noteq> [] then np_mean all_sizes else Inr 0),
         (''pkt_len_std'', if length all_sizes > 1 then np_std all_sizes else Inr 0),
         (''pkt_len_var'', if length all_sizes > 1 then np_var all_sizes else Inr 0),
         (''flow_bytes_per_sec'', truediv total_bytes dsec),
         (''flow_packets_per_sec'', truediv total_packets dsec),
         (''fwd_packets_per_sec'', truediv (real (fwd_packets self)) dsec),
         (''bwd_packets_per_sec'', truediv (real (bwd_packets self)) dsec),
         (''fwd_iat_total'', if fi \<noteq> [] then py_sum fi else Inr 0),
         (''fwd_iat_mean'', if fi \<noteq> [] then np_mean fi else Inr 0),
         (''fwd_iat_std'', if length fi > 1 then np_std fi else Inr 0),
         (''fwd_iat_min'', if fi \<noteq> [] then py_min fi else Inr 0),
         (''fwd_iat_max'', if fi \<noteq> [] then py_max fi else Inr 0),
         (''bwd_iat_total'', if bi \<noteq> [] then py_sum bi else Inr 0),
         (''bwd_iat_mean'', if bi \<noteq> [] then np_mean bi else Inr 0),
         (''bwd_iat_std'', if length bi > 1 then np_std bi else Inr 0),
         (''bwd_iat_min'', if bi \<noteq> [] then py_min bi else Inr 0),
         (''bwd_iat_max'', if bi \<noteq> [] then py_max bi else Inr 0),
         (''flow_iat_mean'', if all_iat \<noteq> [] then np_mean all_iat else Inr 0),
         (''flow_iat_std'', if length all_iat > 1 then np_std all_iat else Inr 0),
         (''flow_iat_min'', if all_iat \<noteq> [] then py_min all_iat else Inr 0),
         (''flow_iat_max'', if all_iat \<noteq> [] then py_max all_iat else Inr 0),
         (''syn_flag_count'', Inr (real (syn_count self))),
         (''ack_flag_count'', Inr (real (ack_count self))),
         (''fin_flag_count'', Inr (real (fin_count self))),
         (''rst_flag_count'', Inr (real (rst_count self))),
         (''psh_flag_count'', Inr (real (psh_count self))),
         (''urg_flag_count'', Inr (real (urg_count self))),
         (''down_up_ratio'',
            if fwd_packets self > 0
            then truediv (real (bwd_packets self)) (real (fwd_packets self)) else Inr 0),
         (''avg_pkt_size'',
            if total_packets > 0 then truediv total_bytes total_packets else Inr 0),
         (''fwd_seg_size_avg'',
            if fwd_packets self > 0
            then truediv (real (fwd_bytes self)) (real (fwd_packets self)) else Inr 0),
         (''bwd_seg_size_avg'',
            if bwd_packets self > 0
            then truediv (real (bwd_bytes self)) (real (bwd_packets self)) else Inr 0)])"

section \<open>FlowMeter\<close>

type_synonym flow_key = "string \<times> string \<times> nat \<times> nat \<times> nat"



definition transport_ports :: "packet \<Rightarrow> nat \<times> nat" where
  \<comment> \<open>the \<^verbatim>\<open>if/elif/else\<close> of \<^verbatim>\<open>get_flow_key\<close> that reads the ports\<close>
  "transport_ports p =
     (case TCP p of
        Some t \<Rightarrow> (tcp_sport t, tcp_dport t)
      | None \<Rightarrow>
          (case UDP p of
             Some u \<Rightarrow> (udp_sport u, udp_dport u)
           | None \<Rightarrow> (0, 0)))"

definition get_flow_key :: "packet \<Rightarrow> flow_key option" where
  \<comment> \<open>strings compare by code point, tuples lexicographically, as in Python\<close>
  "get_flow_key p =
     (case IP p of
        None \<Rightarrow> None
      | Some i \<Rightarrow>
          (let s = ip_src i; d = ip_dst i; pr = ip_proto i;
               (sp, dp) = transport_ports p
           in if (s, sp) < (d, dp) then Some (s, d, sp, dp, pr)
              else Some (d, s, dp, sp, pr)))"





section \<open>MLClassifier\<close>

text \<open>
  The unpickled artifact is opaque to the program: each of its operations is a function
  that returns a value or raises. \<open>feature_columns = None\<close> stands for a value that
  cannot be iterated. A reason is the f-string of the source with the values it
  interpolates.
\<close>

record artifact =
  feature_columns :: "string list option"
  scaler_transform :: "pyval list \<Rightarrow> failure + real list"
  model_predict :: "real list \<Rightarrow> failure + int"
  predict_proba :: "(real list \<Rightarrow> failure + real list) option"
  inverse_transform :: "int \<Rightarrow> failure + string"

record ml_classifier =
  model :: "artifact option"
  use_heuristics :: bool

datatype reason =
  HighPacketRate real
| SynFlood real pyval
| HighBandwidth real
| SmallPackets real
| Asymmetric real pyval

datatype prediction =
  Heuristic bool string real "reason list"
| Model bool string real



definition py_eq0 :: "pyval \<Rightarrow> bool" where
  \<comment> \<open>\<^verbatim>\<open>v == 0\<close>\<close>
  "py_eq0 v = (case v of Num x \<Rightarrow> x = 0 | Str _ \<Rightarrow> False)"

definition skewed :: "real \<Rightarrow> pyval \<Rightarrow> real \<Rightarrow> failure + bool" where
  \<comment> \<open>\<^verbatim>\<open>b == 0 or a / (b + 1) > thr\<close>\<close>
  "skewed a b thr =
     (if py_eq0 b then Inr True
      else bindE (as_num b) (\<lambda>bn. bindE (truediv a (bn + 1)) (\<lambda>q. Inr (q > thr))))"

definition heuristic_detection :: "features \<Rightarrow> failure + prediction" where
  "heuristic_detection fs =
     bindE (as_num (dict_get fs ''flow_packets_per_sec'' (Num 0))) (\<lambda>pps.
     let r1 = (if pps > 1000 then [HighPacketRate pps] else []);
         ack = dict_get fs ''ack_flag_count'' (Num 0)
     in
     bindE (as_num (dict_get fs ''syn_flag_count'' (Num 0))) (\<lambda>syn.
     bindE (if syn > 50 then skewed syn ack 10 else Inr False) (\<lambda>c2.
     let r2 = (if c2 then r1 @ [SynFlood syn ack] else r1) in
     bindE (as_num (dict_get fs ''flow_bytes_per_sec'' (Num 0))) (\<lambda>bps.
     let r3 = (if bps > 10000000 then r2 @ [HighBandwidth (bps / 1000000)] else r2) in
     bindE (as_num (dict_get fs ''avg_pkt_size'' (Num 0))) (\<lambda>avg_size.
     let r4 = (if avg_size < 100 \<and> pps > 500 then r3 @ [SmallPackets avg_size] else r3);
         bwd = dict_get fs ''total_bwd_packets'' (Num 0)
     in
     bindE (as_num (dict_get fs ''total_fwd_packets'' (Num 0))) (\<lambda>fwd.
     bindE (if fwd > 100 then skewed fwd bwd 20 else Inr False) (\<lambda>c5.
     let reasons = (if c5 then r4 @ [Asymmetric fwd bwd] else r4);
         is_malicious = (length reasons > 0);
         label = (if is_malicious then ''DDoS'' else ''BENIGN'');
         confidence = min (real (length reasons) / 3) 1
     in Inr (Heuristic is_malicious label confidence
               (if is_malicious then reasons else [])))))))))"

definition upper_char :: "char \<Rightarrow> char" where
  \<comment> \<open>ASCII letters only\<close>
  "upper_char c =
     (let n = (of_char c :: nat) in if 97 \<le> n \<and> n \<le> 122 then char_of (n - 32) else c)"

definition str_upper :: "string \<Rightarrow> string" where
  "str_upper s = map upper_char s"

definition predict_with_model :: "artifact option \<Rightarrow> features \<Rightarrow> failure + prediction" where
  \<comment> \<open>the body of the \<^verbatim>\<open>try\<close> block of \<^verbatim>\<open>predict\<close>\<close>
  "predict_with_model m fs =
     (case m of
        None \<Rightarrow> Inl TypeError
      | Some a \<Rightarrow>
          bindE (case feature_columns a of None \<Rightarrow> Inl TypeError | Some cs \<Rightarrow> Inr cs) (\<lambda>cols.
          let feature_vector = map (\<lambda>col. dict_get fs col (Num 0)) cols in
          bindE (scaler_transform a feature_vector) (\<lambda>X_scaled.
          bindE (model_predict a X_scaled) (\<lambda>pred.
          bindE (case predict_proba a of
                   None \<Rightarrow> Inr 0
                 | Some pp \<Rightarrow> bindE (pp X_scaled) py_max) (\<lambda>confidence.
          bindE (inverse_transform a pred) (\<lambda>label.
          let is_malicious = (str_upper label \<noteq> ''BENIGN'')
          in Inr (Model is_malicious label confidence)))))))"

definition predict ::
  "ml_classifier \<Rightarrow> features \<Rightarrow> failure option \<Rightarrow> failure + prediction" where
  \<comment> \<open>the third argument is what the \<^verbatim>\<open>print\<close> of the handler does: \<open>None\<close> when
      the message is written, \<open>Some pe\<close> when formatting the exception or writing
      the line raises \<open>pe\<close>\<close>
  "predict self fs printed =
     (if use_heuristics self then heuristic_detection fs
      else (case predict_with_model (model self) fs of
              Inr r \<Rightarrow> Inr r
            | Inl e \<Rightarrow>
                if \<not> is_Exception e then Inl e
                else (case printed of
                        Some pe \<Rightarrow> Inl pe
                      | None \<Rightarrow> heuristic_detection fs)))"

section \<open>IPTablesFilter\<close>

text \<open>
  \<^verbatim>\<open>subprocess.run\<close> either completes with a return code or raises (timeout, missing
  binary). The filter carries the list of command lines it has handed to
  \<^verbatim>\<open>subprocess.run\<close>, so that an enforcement attempt is visible in the state.
\<close>

datatype run_outcome = Completed int | Raised

record iptables_filter =
  blocked_ips :: "string set"
  invocations :: "string list list"

definition IPTablesFilter_init :: iptables_filter where
  "IPTablesFilter_init = \<lparr>blocked_ips = {}, invocations = []\<rparr>"

definition startswith :: "string \<Rightarrow> string \<Rightarrow> bool" where
  "startswith s p = (take (length p) s = p)"

definition block_ip :: "iptables_filter \<Rightarrow> string \<Rightarrow> run_outcome \<Rightarrow> bool \<times> iptables_filter" where
  "block_ip self ip_address oc =
     (if ip_address \<in> blocked_ips self then (True, self)
      else if startswith ip_address ''127.'' \<or> ip_address = ''0.0.0.0'' then (False, self)
      else
        (let cmd = [''iptables'', ''-A'', ''INPUT'', ''-s'', ip_address, ''-j'', ''DROP''];
             ran = self\<lparr>invocations := invocations self @ [cmd]\<rparr>
         in case oc of
              Completed rc \<Rightarrow>
                (if rc = 0 then (True, ran\<lparr>blocked_ips := insert ip_address (blocked_ips ran)\<rparr>)
                 else (False, ran))
            | Raised \<Rightarrow> (False, ran)))"

definition unblock_ip :: "iptables_filter \<Rightarrow> string \<Rightarrow> run_outcome \<Rightarrow> bool \<times> iptables_filter" where
  "unblock_ip self ip_address oc =
     (let cmd = [''iptables'', ''-D'', ''INPUT'', ''-s'', ip_address, ''-j'', ''DROP''];
          ran = self\<lparr>invocations := invocations self @ [cmd]\<rparr>
      in case oc of
           Completed rc \<Rightarrow> (True, ran\<lparr>blocked_ips := blocked_ips ran - {ip_address}\<rparr>)
         | Raised \<Rightarrow> (False, ran))"

section \<open>JSONLogger\<close>







section \<open>DDoSDetectionSystem\<close>












section \<open>Sessions of the filter, and how addresses are written\<close>

text \<open>
  The blocked set is only ever changed by \<^verbatim>\<open>block_ip\<close> and \<^verbatim>\<open>unblock_ip\<close>
  (\<^verbatim>\<open>clear_all\<close> is a sequence of \<^verbatim>\<open>unblock_ip\<close> calls), so the states a filter
  can be in are those reached from the fresh one by a list of such calls.
\<close>

datatype filter_op = BlockOp string run_outcome | UnblockOp string run_outcome

fun filter_run :: "iptables_filter \<Rightarrow> filter_op list \<Rightarrow> iptables_filter" where
  "filter_run f [] = f"
| "filter_run f (BlockOp a oc # ops) = filter_run (snd (block_ip f a oc)) ops"
| "filter_run f (UnblockOp a oc # ops) = filter_run (snd (unblock_ip f a oc)) ops"

text \<open>
  The capture layer hands IPv4 addresses over in dotted decimal notation. The loopback
  network is 127.0.0.0/8, the unspecified address is 0.0.0.0.
\<close>

fun dec :: "nat \<Rightarrow> string" where
  "dec n = (if n < 10 then [''0123456789'' ! n]
            else dec (n div 10) @ [''0123456789'' ! (n mod 10)])"

definition dotted_quad :: "nat \<Rightarrow> nat \<Rightarrow> nat \<Rightarrow> nat \<Rightarrow> string" where
  "dotted_quad a b c d = dec a @ ''.'' @ dec b @ ''.'' @ dec c @ ''.'' @ dec d"

definition refused :: "string \<Rightarrow> bool" where
  \<comment> \<open>the guard of \<^verbatim>\<open>block_ip\<close>\<close>
  "refused a = (startswith a ''127.'' \<or> a = ''0.0.0.0'')"

section \<open>Flows as the meter builds them\<close>

text \<open>
  A flow record is created by \<^verbatim>\<open>Flow(...)\<close> and changed by \<^verbatim>\<open>add_packet\<close> only, so
  the records that exist are those reached from a fresh one by a list of packets, each
  with its arrival time and direction.
\<close>

definition flow_after :: "flow \<Rightarrow> (packet \<times> int \<times> bool) list \<Rightarrow> flow" where
  "flow_after f evs = foldl (\<lambda>g (p, t, d). add_packet g p t d) f evs"

definition flow_consistent :: "flow \<Rightarrow> bool" where
  \<comment> \<open>what the counters and the sample lists of one direction have in common\<close>
  "flow_consistent f =
     (length (fwd_packet_sizes f) = fwd_packets f \<and> sum_list (fwd_packet_sizes f) = fwd_bytes f
      \<and> (fwd_packets f = 0 \<longrightarrow> fwd_iat f = [] \<and> last_fwd_time f = None)
      \<and> length (bwd_packet_sizes f) = bwd_packets f \<and> sum_list (bwd_packet_sizes f) = bwd_bytes f
      \<and> (bwd_packets f = 0 \<longrightarrow> bwd_iat f = [] \<and> last_bwd_time f = None))"

text \<open>The keys of the snapshot that describe one direction only.\<close>

definition fwd_keys :: "string list" where
  "fwd_keys = [''total_fwd_packets'', ''total_fwd_bytes'', ''fwd_pkt_len_min'', ''fwd_pkt_len_max'',
     ''fwd_pkt_len_mean'', ''fwd_pkt_len_std'', ''fwd_packets_per_sec'', ''fwd_iat_total'',
     ''fwd_iat_mean'', ''fwd_iat_std'', ''fwd_iat_min'', ''fwd_iat_max'', ''fwd_seg_size_avg'',
     ''down_up_ratio'']"

definition bwd_keys :: "string list" where
  "bwd_keys = [''total_bwd_packets'', ''total_bwd_bytes'', ''bwd_pkt_len_min'', ''bwd_pkt_len_max'',
     ''bwd_pkt_len_mean'', ''bwd_pkt_len_std'', ''bwd_packets_per_sec'', ''bwd_iat_total'',
     ''bwd_iat_mean'', ''bwd_iat_std'', ''bwd_iat_min'', ''bwd_iat_max'', ''bwd_seg_size_avg'']"

text \<open>A flow that has seen one forward packet of 60 bytes, a TCP SYN.\<close>

definition single_packet_flow :: flow where
  "single_packet_flow =
     add_packet (Flow_init ''10.0.0.2'' ''9.0.0.1'' 51000 443 6)
       \<lparr>IP = Some \<lparr>ip_src = ''10.0.0.2'', ip_dst = ''9.0.0.1'', ip_proto = 6\<rparr>,
        TCP = Some \<lparr>tcp_sport = 51000, tcp_dport = 443, tcp_flags = 2\<rparr>,
        UDP = None, pkt_len = 60\<rparr>
       1000 True"

section \<open>Snapshots the heuristic rules can read\<close>

text \<open>
  The rules read seven entries of the snapshot, a missing one counting as 0. Rates,
  sizes and counts are numbers that are not negative.
\<close>

definition heuristic_keys :: "string list" where
  "heuristic_keys = [''flow_packets_per_sec'', ''syn_flag_count'', ''ack_flag_count'',
     ''flow_bytes_per_sec'', ''avg_pkt_size'', ''total_fwd_packets'', ''total_bwd_packets'']"

definition nonneg_num :: "pyval \<Rightarrow> bool" where
  "nonneg_num v = (case v of Num x \<Rightarrow> 0 \<le> x | Str _ \<Rightarrow> False)"

definition numeric_snapshot :: "features \<Rightarrow> bool" where
  "numeric_snapshot fs = (\<forall>k \<in> set heuristic_keys. nonneg_num (dict_get fs k (Num 0)))"

text \<open>The reasons of a result, and whether one of them is the SYN-flood reason.\<close>

fun is_syn_flood :: "reason \<Rightarrow> bool" where
  "is_syn_flood (SynFlood s a) = True"
| "is_syn_flood _ = False"

definition reasons_of :: "prediction \<Rightarrow> reason list" where
  "reasons_of r = (case r of Heuristic m l c rs \<Rightarrow> rs | Model m l c \<Rightarrow> [])"

text \<open>The list of reasons of \<^verbatim>\<open>heuristic_detection\<close> on numeric entries, rule by rule.\<close>

definition heuristic_reasons :: "real \<Rightarrow> real \<Rightarrow> real \<Rightarrow> real \<Rightarrow> real \<Rightarrow> real \<Rightarrow> real \<Rightarrow> reason list" where
  "heuristic_reasons pps syn ack bps avg fwd bwd =
     (if pps > 1000 then [HighPacketRate pps] else [])
     @ (if syn > 50 \<and> (ack = 0 \<or> syn / (ack + 1) > 10) then [SynFlood syn (Num ack)] else [])
     @ (if bps > 10000000 then [HighBandwidth (bps / 1000000)] else [])
     @ (if avg < 100 \<and> pps > 500 then [SmallPackets avg] else [])
     @ (if fwd > 100 \<and> (bwd = 0 \<or> fwd / (bwd + 1) > 20) then [Asymmetric fwd (Num bwd)] else [])"

section \<open>Two classifiers with a loaded artifact\<close>

text \<open>
  In the first the scaler raises an \<^verbatim>\<open>Exception\<close> on every input; in the second the
  model's \<^verbatim>\<open>predict\<close> is interrupted, which raises \<^verbatim>\<open>KeyboardInterrupt\<close>.
\<close>

definition failing_scaler_classifier :: ml_classifier where
  "failing_scaler_classifier =
     \<lparr>model = Some \<lparr>feature_columns = Some [''flow_packets_per_sec''],
                     scaler_transform = (\<lambda>v. Inl OtherException),
                     model_predict = (\<lambda>x. Inr 1),
                     predict_proba = None,
                     inverse_transform = (\<lambda>i. Inr ''DDoS'')\<rparr>,
      use_heuristics = False\<rparr>"

definition interrupted_classifier :: ml_classifier where
  "interrupted_classifier =
     \<lparr>model = Some \<lparr>feature_columns = Some [''flow_packets_per_sec''],
                     scaler_transform = (\<lambda>v. Inr [0]),
                     model_predict = (\<lambda>x. Inl KeyboardInterrupt),
                     predict_proba = None,
                     inverse_transform = (\<lambda>i. Inr ''DDoS'')\<rparr>,
      use_heuristics = False\<rparr>"

section \<open>Flow records as objects in a store\<close>

text \<open>
  Python's flow record is an object whose four sample lists are objects of their own,
  which \<^verbatim>\<open>add_packet\<close> extends in place; a snapshot is a dict object, which
  \<^verbatim>\<open>process_packet\<close> writes to (\<^verbatim>\<open>features['src_ip'] = ...\<close>) after it has received
  it. The store is the list of objects allocated so far, an address is a position in
  it, and a new object goes to the end. \<open>flow_at\<close> reads the record that a flow object
  and the lists it refers to stand for.
\<close>

record flow_obj =
  o_src_ip :: string
  o_dst_ip :: string
  o_src_port :: nat
  o_dst_port :: nat
  o_protocol :: nat
  o_start_time :: "int option"
  o_last_time :: "int option"
  o_fwd_packets :: nat
  o_bwd_packets :: nat
  o_fwd_bytes :: nat
  o_bwd_bytes :: nat
  o_fwd_packet_sizes :: nat
  o_bwd_packet_sizes :: nat
  o_fwd_iat :: nat
  o_bwd_iat :: nat
  o_last_fwd_time :: "int option"
  o_last_bwd_time :: "int option"
  o_syn_count :: nat
  o_ack_count :: nat
  o_fin_count :: nat
  o_rst_count :: nat
  o_psh_count :: nat
  o_urg_count :: nat

datatype pyobj = FlowObj flow_obj | IntList "nat list" | FloatList "real list" | Dict features

type_synonym heap = "pyobj list"

definition lookup :: "heap \<Rightarrow> nat \<Rightarrow> pyobj option" where
  "lookup h a = (if a < length h then Some (h ! a) else None)"

definition alloc :: "pyobj \<Rightarrow> heap \<Rightarrow> nat \<times> heap" where
  "alloc ob h = (length h, h @ [ob])"

definition int_list_at :: "heap \<Rightarrow> nat \<Rightarrow> nat list option" where
  "int_list_at h a = (case lookup h a of Some (IntList xs) \<Rightarrow> Some xs | _ \<Rightarrow> None)"

definition float_list_at :: "heap \<Rightarrow> nat \<Rightarrow> real list option" where
  "float_list_at h a = (case lookup h a of Some (FloatList xs) \<Rightarrow> Some xs | _ \<Rightarrow> None)"

definition dict_at :: "heap \<Rightarrow> nat \<Rightarrow> features option" where
  "dict_at h a = (case lookup h a of Some (Dict d) \<Rightarrow> Some d | _ \<Rightarrow> None)"

definition flow_at :: "heap \<Rightarrow> nat \<Rightarrow> flow option" where
  "flow_at h r =
     (case lookup h r of
        Some (FlowObj ob) \<Rightarrow>
          (case (int_list_at h (o_fwd_packet_sizes ob), int_list_at h (o_bwd_packet_sizes ob),
                 float_list_at h (o_fwd_iat ob), float_list_at h (o_bwd_iat ob)) of
             (Some fs, Some bs, Some fi, Some bi) \<Rightarrow>
               Some \<lparr>src_ip = o_src_ip ob, dst_ip = o_dst_ip ob, src_port = o_src_port ob,
                     dst_port = o_dst_port ob, protocol = o_protocol ob,
                     start_time = o_start_time ob, last_time = o_last_time ob,
                     fwd_packets = o_fwd_packets ob, bwd_packets = o_bwd_packets ob,
                     fwd_bytes = o_fwd_bytes ob, bwd_bytes = o_bwd_bytes ob,
                     fwd_packet_sizes = fs, bwd_packet_sizes = bs,
                     fwd_iat = fi, bwd_iat = bi,
                     last_fwd_time = o_last_fwd_time ob, last_bwd_time = o_last_bwd_time ob,
                     syn_count = o_syn_count ob, ack_count = o_ack_count ob,
                     fin_count = o_fin_count ob, rst_count = o_rst_count ob,
                     psh_count = o_psh_count ob, urg_count = o_urg_count ob\<rparr>
           | _ \<Rightarrow> None)
      | _ \<Rightarrow> None)"

text \<open>\<^verbatim>\<open>d[k] = v\<close> on the dict object at an address: the object is changed in place.\<close>

definition dict_setitem :: "nat \<Rightarrow> string \<Rightarrow> pyval \<Rightarrow> heap \<Rightarrow> heap" where
  "dict_setitem a k v h =
     (case dict_at h a of Some d \<Rightarrow> h[a := Dict (dict_set d k v)] | None \<Rightarrow> h)"

text \<open>
  \<^verbatim>\<open>extract_features\<close> on the flow object at an address. The method reads attributes
  of \<^verbatim>\<open>self\<close> and the lists they refer to; \<^verbatim>\<open>self.fwd_packet_sizes + self.bwd_packet_sizes\<close>
  and \<^verbatim>\<open>self.fwd_iat + self.bwd_iat\<close> make two new lists, the dict display makes a new
  dict with the entries that \<open>extract_features\<close> computes from what was read, and that
  dict is returned. It reads neither the clock nor a global.
\<close>

definition extract_features_at :: "nat \<Rightarrow> heap \<Rightarrow> (failure + nat) \<times> heap" where
  "extract_features_at r h =
     (case flow_at h r of
        None \<Rightarrow> (Inl OtherException, h)
      | Some self \<Rightarrow>
          (let (all_sizes, h1) = alloc (IntList (fwd_packet_sizes self @ bwd_packet_sizes self)) h;
               (all_iat, h2) = alloc (FloatList (fwd_iat self @ bwd_iat self)) h1
           in case extract_features self of
                Inl e \<Rightarrow> (Inl e, h2)
              | Inr d \<Rightarrow> (let (a, h3) = alloc (Dict d) h2 in (Inr a, h3))))"

text \<open>The flow of one forward packet, as objects: four lists and the record.\<close>

definition single_packet_heap :: heap where
  "single_packet_heap =
     [IntList [60], IntList [], FloatList [], FloatList [],
      FlowObj \<lparr>o_src_ip = ''10.0.0.2'', o_dst_ip = ''9.0.0.1'', o_src_port = 51000,
               o_dst_port = 443, o_protocol = 6,
               o_start_time = Some 1000, o_last_time = Some 1000,
               o_fwd_packets = 1, o_bwd_packets = 0, o_fwd_bytes = 60, o_bwd_bytes = 0,
               o_fwd_packet_sizes = 0, o_bwd_packet_sizes = 1, o_fwd_iat = 2, o_bwd_iat = 3,
               o_last_fwd_time = Some 1000, o_last_bwd_time = None,
               o_syn_count = 1, o_ack_count = 0, o_fin_count = 0, o_rst_count = 0,
               o_psh_count = 0, o_urg_count = 0\<rparr>]"

section \<open>What one packet may do to the detection log\<close>
















section \<open>Flow keys\<close>

text \<open>
  C5. Two IP packets whose (source address, source port) and (destination address,
  destination port) are swapped and whose protocol numbers agree get the same flow key,
  and the key lists the smaller of the two (address, port) pairs first: its addresses
  are at positions one and two, its ports at positions three and four.
\<close>

theorem get_flow_key_symmetric:
  assumes "IP p1 = Some i1" and "IP p2 = Some i2"
    and "ip_src i2 = ip_dst i1" and "ip_dst i2 = ip_src i1"
    and "ip_proto i2 = ip_proto i1"
    and "transport_ports p2 = (snd (transport_ports p1), fst (transport_ports p1))"
  shows "get_flow_key p1 = get_flow_key p2
    \<and> (\<exists>a1 a2 q1 q2. get_flow_key p1 = Some (a1, a2, q1, q2, ip_proto i1)
         \<and> (a1, q1) = min (ip_src i1, fst (transport_ports p1))
                          (ip_dst i1, snd (transport_ports p1))
         \<and> (a2, q2) = max (ip_src i1, fst (transport_ports p1))
                          (ip_dst i1, snd (transport_ports p1)))"
proof -
  obtain sp dp where t: "transport_ports p1 = (sp, dp)"
    by (cases "transport_ports p1")
  show ?thesis
    using assms t
    by (auto simp: get_flow_key_def Let_def min_def max_def)
qed

theorem get_flow_key_symmetric_witness:
  "get_flow_key
     \<lparr>IP = Some \<lparr>ip_src = ''9.0.0.1'', ip_dst = ''10.0.0.2'', ip_proto = 6\<rparr>,
      TCP = Some \<lparr>tcp_sport = 443, tcp_dport = 51000, tcp_flags = 2\<rparr>,
      UDP = None, pkt_len = 60\<rparr>
   = Some (''10.0.0.2'', ''9.0.0.1'', 51000, 443, 6)
   \<and> get_flow_key
     \<lparr>IP = Some \<lparr>ip_src = ''10.0.0.2'', ip_dst = ''9.0.0.1'', ip_proto = 6\<rparr>,
      TCP = Some \<lparr>tcp_sport = 51000, tcp_dport = 443, tcp_flags = 16\<rparr>,
      UDP = None, pkt_len = 40\<rparr>
   = Some (''10.0.0.2'', ''9.0.0.1'', 51000, 443, 6)"
  using get_flow_key_symmetric
    [of "\<lparr>IP = Some \<lparr>ip_src = ''9.0.0.1'', ip_dst = ''10.0.0.2'', ip_proto = 6\<rparr>,
          TCP = Some \<lparr>tcp_sport = 443, tcp_dport = 51000, tcp_flags = 2\<rparr>,
          UDP = None, pkt_len = 60\<rparr>"
        "\<lparr>ip_src = ''9.0.0.1'', ip_dst = ''10.0.0.2'', ip_proto = 6\<rparr>"
        "\<lparr>IP = Some \<lparr>ip_src = ''10.0.0.2'', ip_dst = ''9.0.0.1'', ip_proto = 6\<rparr>,
          TCP = Some \<lparr>tcp_sport = 51000, tcp_dport = 443, tcp_flags = 16\<rparr>,
          UDP = None, pkt_len = 40\<rparr>"
        "\<lparr>ip_src = ''10.0.0.2'', ip_dst = ''9.0.0.1'', ip_proto = 6\<rparr>"]
  by (simp add: transport_ports_def get_flow_key_def)

section \<open>The filter\<close>

lemma dec_127: "dec 127 = ''127''"
  by simp

lemma dec_0: "dec 0 = ''0''"
  by simp

lemma refused_dotted:
  "refused (dotted_quad 127 b c d)" "refused (dotted_quad 0 0 0 0)"
  by (simp_all add: refused_def dotted_quad_def startswith_def dec_127 dec_0 del: dec.simps)

lemma block_ip_keeps_refused:
  "\<forall>x \<in> blocked_ips f. \<not> refused x
     \<Longrightarrow> \<forall>x \<in> blocked_ips (snd (block_ip f a oc)). \<not> refused x"
  by (auto simp: block_ip_def refused_def Let_def split: run_outcome.splits if_splits)

lemma unblock_ip_keeps_refused:
  "\<forall>x \<in> blocked_ips f. \<not> refused x
     \<Longrightarrow> \<forall>x \<in> blocked_ips (snd (unblock_ip f a oc)). \<not> refused x"
  by (auto simp: unblock_ip_def Let_def split: run_outcome.splits)

lemma filter_run_keeps_refused:
  "\<forall>x \<in> blocked_ips f. \<not> refused x \<Longrightarrow> \<forall>x \<in> blocked_ips (filter_run f ops). \<not> refused x"
proof (induction f ops rule: filter_run.induct)
  case (1 f)
  then show ?case by simp
next
  case (2 f a oc ops)
  then show ?case using block_ip_keeps_refused[of f a oc] by simp
next
  case (3 f a oc ops)
  then show ?case using unblock_ip_keeps_refused[of f a oc] by simp
qed

text \<open>
  C7. If a call of \<^verbatim>\<open>block_ip\<close> for an address succeeds, a second call for the same
  address succeeds as well and leaves the filter as it is: it hands nothing to
  \<^verbatim>\<open>subprocess.run\<close>. The first call has run the \<^verbatim>\<open>iptables\<close> command at most once,
  so the command runs at most once across both calls.
\<close>

theorem block_ip_idempotent:
  assumes "block_ip f a oc1 = (True, f1)"
  shows "block_ip f1 a oc2 = (True, f1)
    \<and> (invocations f1 = invocations f
        \<or> invocations f1 =
            invocations f @ [[''iptables'', ''-A'', ''INPUT'', ''-s'', a, ''-j'', ''DROP'']])"
  using assms
  by (auto simp: block_ip_def Let_def split: if_splits run_outcome.splits)

theorem block_ip_idempotent_witness:
  "block_ip IPTablesFilter_init ''10.0.0.5'' (Completed 0)
     = (True, \<lparr>blocked_ips = {''10.0.0.5''},
               invocations =
                 [[''iptables'', ''-A'', ''INPUT'', ''-s'', ''10.0.0.5'', ''-j'', ''DROP'']]\<rparr>)
   \<and> block_ip \<lparr>blocked_ips = {''10.0.0.5''},
               invocations =
                 [[''iptables'', ''-A'', ''INPUT'', ''-s'', ''10.0.0.5'', ''-j'', ''DROP'']]\<rparr>
        ''10.0.0.5'' Raised
     = (True, \<lparr>blocked_ips = {''10.0.0.5''},
               invocations =
                 [[''iptables'', ''-A'', ''INPUT'', ''-s'', ''10.0.0.5'', ''-j'', ''DROP'']]\<rparr>)"
proof -
  have h: "block_ip IPTablesFilter_init ''10.0.0.5'' (Completed 0)
     = (True, \<lparr>blocked_ips = {''10.0.0.5''},
               invocations =
                 [[''iptables'', ''-A'', ''INPUT'', ''-s'', ''10.0.0.5'', ''-j'', ''DROP'']]\<rparr>)"
    by (simp add: block_ip_def IPTablesFilter_init_def startswith_def)
  from block_ip_idempotent[OF h, of Raised] h show ?thesis by simp
qed

text \<open>
  C8. In every state that a filter reaches from the fresh one, \<^verbatim>\<open>block_ip\<close> on a
  loopback address (127.b.c.d) or on the unspecified address (0.0.0.0) returns failure
  and leaves the filter unchanged: nothing is handed to \<^verbatim>\<open>subprocess.run\<close> and the
  blocked set stays as it was.
\<close>

theorem block_ip_refuses_loopback:
  assumes "f = filter_run IPTablesFilter_init ops"
    and "a = dotted_quad 127 b c d \<or> a = dotted_quad 0 0 0 0"
  shows "block_ip f a oc = (False, f) \<and> a \<notin> blocked_ips f"
proof -
  have r: "refused a"
    using assms(2) refused_dotted by auto
  have "\<forall>x \<in> blocked_ips f. \<not> refused x"
    unfolding assms(1)
    by (rule filter_run_keeps_refused) (simp add: IPTablesFilter_init_def)
  with r have "a \<notin> blocked_ips f"
    by auto
  with r show ?thesis
    by (simp add: block_ip_def refused_def)
qed

theorem block_ip_refuses_loopback_witness:
  "''127.0.0.1'' = dotted_quad 127 0 0 1
   \<and> block_ip (filter_run IPTablesFilter_init [BlockOp ''10.0.0.5'' (Completed 0)])
        ''127.0.0.1'' (Completed 0)
     = (False, filter_run IPTablesFilter_init [BlockOp ''10.0.0.5'' (Completed 0)])"
proof -
  have e: "''127.0.0.1'' = dotted_quad 127 0 0 1"
    by (simp add: dotted_quad_def)
  show ?thesis
    using block_ip_refuses_loopback
      [of "filter_run IPTablesFilter_init [BlockOp ''10.0.0.5'' (Completed 0)]"
          "[BlockOp ''10.0.0.5'' (Completed 0)]" "''127.0.0.1''" 0 0 1 "Completed 0"] e
    by simp
qed

text \<open>
  C10. \<^verbatim>\<open>unblock_ip\<close> returns success and removes the address from the blocked set
  whenever the delete command completes, whatever its return code; it returns failure,
  with the blocked set unchanged, exactly when \<^verbatim>\<open>subprocess.run\<close> raises.
\<close>

theorem unblock_ip_outcome:
  "fst (unblock_ip f a (Completed rc))
   \<and> blocked_ips (snd (unblock_ip f a (Completed rc))) = blocked_ips f - {a}
   \<and> \<not> fst (unblock_ip f a Raised)
   \<and> blocked_ips (snd (unblock_ip f a Raised)) = blocked_ips f
   \<and> (fst (unblock_ip f a oc) = (oc \<noteq> Raised))"
  by (cases oc) (simp_all add: unblock_ip_def Let_def)

section \<open>Feature extraction\<close>

lemma duration_sec_pos: "0 < duration_sec self"
  by (simp add: duration_sec_def Let_def)

lemma guard_nonempty:
  "(if xs \<noteq> [] then py_min xs else Inr 0) = Inr (if xs \<noteq> [] then Min (set xs) else 0)"
  "(if xs \<noteq> [] then py_max xs else Inr 0) = Inr (if xs \<noteq> [] then Max (set xs) else 0)"
  "(if xs \<noteq> [] then py_sum xs else Inr 0) = Inr (if xs \<noteq> [] then sum_list xs else 0)"
  "(if xs \<noteq> [] then np_mean xs else Inr 0)
     = Inr (if xs \<noteq> [] then sum_list xs / real (length xs) else 0)"
  by (simp_all add: py_min_def py_max_def py_sum_def np_mean_def)

lemma guard_several:
  "(if 1 < length xs then np_var xs else Inr 0)
     = Inr (if 1 < length xs then projr (np_var xs) else 0)"
  "(if 1 < length xs then np_std xs else Inr 0)
     = Inr (if 1 < length xs then sqrt (projr (np_var xs)) else 0)"
  by (auto simp: np_var_def np_std_def)

lemma guard_div:
  "(if 0 < n then truediv a (real n) else Inr 0) = Inr (if 0 < n then a / real n else 0)"
  "(if 0 < real n then truediv a (real n) else Inr 0) = Inr (if 0 < n then a / real n else 0)"
  "truediv a (duration_sec self) = Inr (a / duration_sec self)"
  using duration_sec_pos[of self] by (simp_all add: truediv_def)

lemmas guards = guard_nonempty guard_several guard_div

lemma extract_features_total: "\<exists>fs. extract_features self = Inr fs"
  unfolding extract_features_def Let_def
  by (simp only: guards build_dict.simps sum.case) blast

lemma extract_features_rates:
  assumes "extract_features self = Inr fs"
  shows "dict_item fs ''flow_bytes_per_sec''
           = Inr (Num (real (fwd_bytes self + bwd_bytes self) / duration_sec self))"
    and "dict_item fs ''flow_packets_per_sec''
           = Inr (Num (real (fwd_packets self + bwd_packets self) / duration_sec self))"
    and "dict_item fs ''fwd_packets_per_sec'' = Inr (Num (real (fwd_packets self) / duration_sec self))"
    and "dict_item fs ''bwd_packets_per_sec'' = Inr (Num (real (bwd_packets self) / duration_sec self))"
    and "dict_item fs ''flow_duration'' = Inr (Num (get_duration self))"
proof -
  from assms have "fs = projr (extract_features self)" by simp
  then have fs: "fs = projr (extract_features self)" .
  show "dict_item fs ''flow_bytes_per_sec''
           = Inr (Num (real (fwd_bytes self + bwd_bytes self) / duration_sec self))"
    unfolding fs extract_features_def Let_def
    by (simp only: guards build_dict.simps sum.case sum.sel) (simp add: dict_item_def)
  show "dict_item fs ''flow_packets_per_sec''
           = Inr (Num (real (fwd_packets self + bwd_packets self) / duration_sec self))"
    unfolding fs extract_features_def Let_def
    by (simp only: guards build_dict.simps sum.case sum.sel) (simp add: dict_item_def)
  show "dict_item fs ''fwd_packets_per_sec'' = Inr (Num (real (fwd_packets self) / duration_sec self))"
    unfolding fs extract_features_def Let_def
    by (simp only: guards build_dict.simps sum.case sum.sel) (simp add: dict_item_def)
  show "dict_item fs ''bwd_packets_per_sec'' = Inr (Num (real (bwd_packets self) / duration_sec self))"
    unfolding fs extract_features_def Let_def
    by (simp only: guards build_dict.simps sum.case sum.sel) (simp add: dict_item_def)
  show "dict_item fs ''flow_duration'' = Inr (Num (get_duration self))"
    unfolding fs extract_features_def Let_def
    by (simp only: guards build_dict.simps sum.case sum.sel) (simp add: dict_item_def)
qed

lemma count_flags_shape:
  "\<exists>a b c d e g. count_flags s p =
     s\<lparr>syn_count := a, ack_count := b, fin_count := c, rst_count := d, psh_count := e, urg_count := g\<rparr>"
proof (cases "TCP p")
  case None
  have "s = s\<lparr>syn_count := syn_count s, ack_count := ack_count s, fin_count := fin_count s,
       rst_count := rst_count s, psh_count := psh_count s, urg_count := urg_count s\<rparr>"
    by simp
  with None show ?thesis unfolding count_flags_def by (metis option.simps(4))
next
  case (Some t)
  have "count_flags s p = s\<lparr>syn_count := syn_count (count_flags s p), ack_count := ack_count (count_flags s p),
     fin_count := fin_count (count_flags s p),
       rst_count := rst_count (count_flags s p), psh_count := psh_count (count_flags s p),
   urg_count := urg_count (count_flags s p)\<rparr>"
    using Some by (simp add: count_flags_def Let_def)
  then show ?thesis by blast
qed

lemma count_flags_consistent: "flow_consistent (count_flags s p) = flow_consistent s"
proof -
  obtain a b c d e g where "count_flags s p =
     s\<lparr>syn_count := a, ack_count := b, fin_count := c, rst_count := d, psh_count := e, urg_count := g\<rparr>"
    using count_flags_shape by blast
  then show ?thesis by (simp add: flow_consistent_def)
qed

lemma add_packet_consistent:
  assumes "flow_consistent f"
  shows "flow_consistent (add_packet f p t d)"
  using assms unfolding add_packet_def Let_def count_flags_consistent
  by (auto simp: flow_consistent_def split: option.splits)

lemma flow_after_consistent:
  "flow_consistent f \<Longrightarrow> flow_consistent (flow_after f evs)"
  unfolding flow_after_def
  by (induction evs arbitrary: f) (auto simp: add_packet_consistent)

lemma Flow_init_consistent: "flow_consistent (Flow_init s d sp dp pr)"
  by (simp add: flow_consistent_def Flow_init_def)

lemma single_packet_flow_eq:
  "single_packet_flow =
     \<lparr>src_ip = ''10.0.0.2'', dst_ip = ''9.0.0.1'', src_port = 51000, dst_port = 443, protocol = 6,
      start_time = Some 1000, last_time = Some 1000,
      fwd_packets = 1, bwd_packets = 0, fwd_bytes = 60, bwd_bytes = 0,
      fwd_packet_sizes = [60], bwd_packet_sizes = [],
      fwd_iat = [], bwd_iat = [], last_fwd_time = Some 1000, last_bwd_time = None,
      syn_count = 1, ack_count = 0, fin_count = 0, rst_count = 0, psh_count = 0,
      urg_count = 0\<rparr>"
  by (simp add: single_packet_flow_def add_packet_def Flow_init_def count_flags_def Let_def)

lemma single_packet_flow_after:
  "single_packet_flow = flow_after (Flow_init ''10.0.0.2'' ''9.0.0.1'' 51000 443 6)
     [(\<lparr>IP = Some \<lparr>ip_src = ''10.0.0.2'', ip_dst = ''9.0.0.1'', ip_proto = 6\<rparr>,
        TCP = Some \<lparr>tcp_sport = 51000, tcp_dport = 443, tcp_flags = 2\<rparr>,
        UDP = None, pkt_len = 60\<rparr>, 1000, True)]"
  by (simp add: single_packet_flow_def flow_after_def)

lemma single_packet_duration: "get_duration single_packet_flow = 0"
  by (simp add: single_packet_flow_eq get_duration_def)

lemma single_packet_fields:
  "fwd_packets single_packet_flow = 1" "bwd_packets single_packet_flow = 0"
  "fwd_bytes single_packet_flow = 60" "bwd_bytes single_packet_flow = 0"
  by (simp_all add: single_packet_flow_eq)

text \<open>
  C2, as stated: when the duration is zero, one microsecond is the duration from which
  the per-second rates are computed. It fails on the flow of a single packet: the
  duration in seconds is not \<open>10\<^sup>-\<^sup>6\<close>, and the packet rate is 1000 per second, not
  1000000.
\<close>

theorem duration_floor_counterexample:
  "get_duration single_packet_flow = 0
   \<and> duration_sec single_packet_flow \<noteq> 1 / 1000000
   \<and> dict_item (projr (extract_features single_packet_flow)) ''flow_packets_per_sec''
       = Inr (Num 1000)"
proof -
  obtain fs where fs: "extract_features single_packet_flow = Inr fs"
    using extract_features_total by blast
  have d: "duration_sec single_packet_flow = 1 / 1000"
    by (simp add: duration_sec_def single_packet_duration)
  have "dict_item fs ''flow_packets_per_sec'' = Inr (Num 1000)"
    using extract_features_rates(2)[OF fs] by (simp add: d single_packet_fields)
  then show ?thesis
    using fs d single_packet_duration by simp
qed

text \<open>
  C2, amended: when the duration is zero, 0.001 seconds (one millisecond, 1000
  microseconds) is the duration from which the per-second rates are computed, while the
  reported \<open>flow_duration\<close> stays 0; and feature extraction of any flow never divides
  by zero.
\<close>

theorem extract_features_duration_floor:
  assumes "get_duration self = 0"
  shows "duration_sec self = 1 / 1000
    \<and> (\<exists>fs. extract_features self = Inr fs
         \<and> dict_item fs ''flow_bytes_per_sec''
             = Inr (Num (real (fwd_bytes self + bwd_bytes self) / (1 / 1000)))
         \<and> dict_item fs ''flow_packets_per_sec''
             = Inr (Num (real (fwd_packets self + bwd_packets self) / (1 / 1000)))
         \<and> dict_item fs ''fwd_packets_per_sec'' = Inr (Num (real (fwd_packets self) / (1 / 1000)))
         \<and> dict_item fs ''bwd_packets_per_sec'' = Inr (Num (real (bwd_packets self) / (1 / 1000)))
         \<and> dict_item fs ''flow_duration'' = Inr (Num 0))
    \<and> extract_features other \<noteq> Inl ZeroDivisionError"
proof -
  have d: "duration_sec self = 1 / 1000"
    using assms by (simp add: duration_sec_def)
  obtain fs where fs: "extract_features self = Inr fs"
    using extract_features_total by blast
  obtain gs where gs: "extract_features other = Inr gs"
    using extract_features_total by blast
  show ?thesis
    using extract_features_rates[OF fs] fs gs d assms by simp
qed

theorem extract_features_duration_floor_witness:
  "get_duration single_packet_flow = 0
   \<and> duration_sec single_packet_flow = 1 / 1000
   \<and> dict_item (projr (extract_features single_packet_flow)) ''flow_bytes_per_sec''
       = Inr (Num 60000)"
proof -
  have z: "get_duration single_packet_flow = 0"
    by (rule single_packet_duration)
  from extract_features_duration_floor[OF z]
  obtain fs where "extract_features single_packet_flow = Inr fs"
    and "dict_item fs ''flow_bytes_per_sec''
           = Inr (Num (real (fwd_bytes single_packet_flow + bwd_bytes single_packet_flow)
                       / (1 / 1000)))"
    and "duration_sec single_packet_flow = 1 / 1000"
    by blast
  then show ?thesis
    using z by (simp add: single_packet_fields)
qed

lemma zero_direction_items:
  assumes ef: "extract_features self = Inr fs"
  shows "fwd_packets self = 0 \<Longrightarrow> fwd_bytes self = 0 \<Longrightarrow> fwd_packet_sizes self = []
           \<Longrightarrow> fwd_iat self = [] \<Longrightarrow> \<forall>k \<in> set fwd_keys. dict_item fs k = Inr (Num 0)"
    and "bwd_packets self = 0 \<Longrightarrow> bwd_bytes self = 0 \<Longrightarrow> bwd_packet_sizes self = []
           \<Longrightarrow> bwd_iat self = [] \<Longrightarrow> \<forall>k \<in> set bwd_keys. dict_item fs k = Inr (Num 0)"
proof -
  from ef have fs: "fs = projr (extract_features self)" by simp
  show "fwd_packets self = 0 \<Longrightarrow> fwd_bytes self = 0 \<Longrightarrow> fwd_packet_sizes self = []
           \<Longrightarrow> fwd_iat self = [] \<Longrightarrow> \<forall>k \<in> set fwd_keys. dict_item fs k = Inr (Num 0)"
    unfolding fs extract_features_def Let_def
    by (simp only: guards build_dict.simps sum.case sum.sel) (simp add: dict_item_def fwd_keys_def)
  show "bwd_packets self = 0 \<Longrightarrow> bwd_bytes self = 0 \<Longrightarrow> bwd_packet_sizes self = []
           \<Longrightarrow> bwd_iat self = [] \<Longrightarrow> \<forall>k \<in> set bwd_keys. dict_item fs k = Inr (Num 0)"
    unfolding fs extract_features_def Let_def
    by (simp only: guards build_dict.simps sum.case sum.sel) (simp add: dict_item_def bwd_keys_def)
qed

text \<open>
  C6. For every flow built by the meter, feature extraction returns a snapshot, and if
  the flow has no packet in one direction then every statistic of that direction is
  present in the snapshot with value 0: the counts, the minimum, maximum, mean and
  standard deviation of the packet sizes, the packet rate, the inter-arrival total,
  mean, standard deviation, minimum and maximum, the average segment size and, for the
  forward direction, the down/up ratio.
\<close>

theorem zero_direction_statistics:
  assumes "self = flow_after (Flow_init s d sp dp pr) evs"
  shows "\<exists>fs. extract_features self = Inr fs
    \<and> (fwd_packets self = 0 \<longrightarrow> (\<forall>k \<in> set fwd_keys. dict_item fs k = Inr (Num 0)))
    \<and> (bwd_packets self = 0 \<longrightarrow> (\<forall>k \<in> set bwd_keys. dict_item fs k = Inr (Num 0)))"
proof -
  have c: "flow_consistent self"
    unfolding assms by (rule flow_after_consistent) (rule Flow_init_consistent)
  obtain fs where fs: "extract_features self = Inr fs"
    using extract_features_total by blast
  have f: "fwd_packets self = 0 \<Longrightarrow> \<forall>k \<in> set fwd_keys. dict_item fs k = Inr (Num 0)"
    using c by (intro zero_direction_items(1)[OF fs]) (auto simp: flow_consistent_def)
  have b: "bwd_packets self = 0 \<Longrightarrow> \<forall>k \<in> set bwd_keys. dict_item fs k = Inr (Num 0)"
    using c by (intro zero_direction_items(2)[OF fs]) (auto simp: flow_consistent_def)
  show ?thesis
  proof (intro exI[of _ fs] conjI impI)
    show "extract_features self = Inr fs" by (rule fs)
  next
    assume "fwd_packets self = 0"
    then show "\<forall>k \<in> set fwd_keys. dict_item fs k = Inr (Num 0)" by (rule f)
  next
    assume "bwd_packets self = 0"
    then show "\<forall>k \<in> set bwd_keys. dict_item fs k = Inr (Num 0)" by (rule b)
  qed
qed

theorem zero_direction_statistics_witness:
  "bwd_packets single_packet_flow = 0
   \<and> dict_item (projr (extract_features single_packet_flow)) ''bwd_pkt_len_mean''
       = Inr (Num 0)
   \<and> dict_item (projr (extract_features single_packet_flow)) ''bwd_pkt_len_std''
       = Inr (Num 0)
   \<and> dict_item (projr (extract_features single_packet_flow)) ''bwd_packets_per_sec''
       = Inr (Num 0)
   \<and> dict_item (projr (extract_features single_packet_flow)) ''bwd_iat_max''
       = Inr (Num 0)
   \<and> dict_item (projr (extract_features single_packet_flow)) ''bwd_seg_size_avg''
       = Inr (Num 0)"
proof -
  have z: "bwd_packets single_packet_flow = 0"
    by (simp add: single_packet_fields)
  from zero_direction_statistics[OF single_packet_flow_after]
  have "\<exists>fs. extract_features single_packet_flow = Inr fs
          \<and> (\<forall>k \<in> set bwd_keys. dict_item fs k = Inr (Num 0))"
    by (elim exE conjE) (intro exI conjI, assumption, erule mp, rule z)
  then have "\<forall>k \<in> set bwd_keys.
      dict_item (projr (extract_features single_packet_flow)) k = Inr (Num 0)"
    by (elim exE conjE) (simp only: sum.sel)
  then show ?thesis
    using z by (simp add: bwd_keys_def)
qed

subsection \<open>The method on the store\<close>

lemma lookup_append: "lookup h a = Some ob \<Longrightarrow> lookup (h @ xs) a = Some ob"
  by (auto simp: lookup_def nth_append split: if_splits)

lemma int_list_at_append: "int_list_at h a = Some xs \<Longrightarrow> int_list_at (h @ ys) a = Some xs"
  by (auto simp: int_list_at_def lookup_append split: option.splits pyobj.splits)

lemma float_list_at_append:
  "float_list_at h a = Some xs \<Longrightarrow> float_list_at (h @ ys) a = Some xs"
  by (auto simp: float_list_at_def lookup_append split: option.splits pyobj.splits)

lemma flow_at_append:
  assumes "flow_at h r = Some f"
  shows "flow_at (h @ xs) r = Some f"
proof -
  from assms obtain ob where ob: "lookup h r = Some (FlowObj ob)"
    by (auto simp: flow_at_def split: option.splits pyobj.splits)
  from assms ob obtain fs bs fi bi where l: "int_list_at h (o_fwd_packet_sizes ob) = Some fs"
    "int_list_at h (o_bwd_packet_sizes ob) = Some bs"
    "float_list_at h (o_fwd_iat ob) = Some fi" "float_list_at h (o_bwd_iat ob) = Some bi"
    by (auto simp: flow_at_def split: option.splits)
  from assms show ?thesis
    by (simp add: flow_at_def lookup_append[OF ob] int_list_at_append[OF l(1)]
        int_list_at_append[OF l(2)] float_list_at_append[OF l(3)] float_list_at_append[OF l(4)]
        ob l)
qed

lemma lookup_update_other:
  assumes "lookup h a = Some (Dict d)" and "lookup h b = Some ob" and "\<forall>d'. ob \<noteq> Dict d'"
  shows "lookup (h[a := Dict d']) b = Some ob"
proof -
  from assms have "a \<noteq> b" by auto
  with assms(2) show ?thesis by (auto simp: lookup_def split: if_splits)
qed

lemma flow_at_setitem:
  assumes "flow_at h r = Some f"
  shows "flow_at (dict_setitem a k v h) r = Some f"
proof (cases "dict_at h a")
  case None
  with assms show ?thesis by (simp add: dict_setitem_def)
next
  case (Some d)
  then have a: "lookup h a = Some (Dict d)"
    by (auto simp: dict_at_def split: option.splits pyobj.splits)
  let ?h = "h[a := Dict (dict_set d k v)]"
  from assms obtain ob where ob: "lookup h r = Some (FlowObj ob)"
    by (auto simp: flow_at_def split: option.splits pyobj.splits)
  from assms ob obtain fs bs fi bi where
    l1: "lookup h (o_fwd_packet_sizes ob) = Some (IntList fs)" and
    l2: "lookup h (o_bwd_packet_sizes ob) = Some (IntList bs)" and
    l3: "lookup h (o_fwd_iat ob) = Some (FloatList fi)" and
    l4: "lookup h (o_bwd_iat ob) = Some (FloatList bi)"
    by (auto simp: flow_at_def int_list_at_def float_list_at_def split: option.splits pyobj.splits)
  have u: "lookup ?h r = Some (FlowObj ob)"
    "lookup ?h (o_fwd_packet_sizes ob) = Some (IntList fs)"
    "lookup ?h (o_bwd_packet_sizes ob) = Some (IntList bs)"
    "lookup ?h (o_fwd_iat ob) = Some (FloatList fi)"
    "lookup ?h (o_bwd_iat ob) = Some (FloatList bi)"
    using lookup_update_other[OF a ob] lookup_update_other[OF a l1] lookup_update_other[OF a l2]
      lookup_update_other[OF a l3] lookup_update_other[OF a l4]
    by simp_all
  from assms have "flow_at ?h r = Some f"
    by (simp add: flow_at_def int_list_at_def float_list_at_def u ob l1 l2 l3 l4)
  with Some show ?thesis by (simp add: dict_setitem_def)
qed

lemma extract_features_at_result:
  assumes f: "flow_at h r = Some f" and d: "extract_features f = Inr d"
  shows "extract_features_at r h =
           (Inr (length h + 2),
            h @ [IntList (fwd_packet_sizes f @ bwd_packet_sizes f),
                 FloatList (fwd_iat f @ bwd_iat f), Dict d])"
  by (simp add: extract_features_at_def f d alloc_def Let_def)

lemma dict_at_last: "dict_at (h @ [Dict d]) (length h) = Some d"
  by (simp add: dict_at_def lookup_def)

lemma dict_at_append: "dict_at h a = Some d \<Longrightarrow> dict_at (h @ xs) a = Some d"
  by (auto simp: dict_at_def lookup_append split: option.splits pyobj.splits)

text \<open>
  C9. Let a flow record live in a store. A call of \<^verbatim>\<open>extract_features\<close> on it returns
  a dict that did not exist before and changes no object that existed: the store after
  the call is the store before it with new objects at the end, and the record reads as
  before. A second call returns another new dict with the same entries, those that
  \<open>extract_features\<close> computes from the record; the first dict is still there with
  these entries. This remains so when the caller writes to the first dict between the
  two calls: the record reads as before and the second call returns the same entries.
\<close>

theorem extract_features_at_pure:
  assumes "flow_at h r = Some f"
  shows "\<exists>a1 a2 d h1 h2.
      extract_features_at r h = (Inr a1, h1) \<and> extract_features_at r h1 = (Inr a2, h2)
    \<and> take (length h) h1 = h \<and> take (length h1) h2 = h1
    \<and> flow_at h1 r = Some f \<and> flow_at h2 r = Some f
    \<and> extract_features f = Inr d
    \<and> dict_at h1 a1 = Some d \<and> dict_at h2 a2 = Some d \<and> dict_at h2 a1 = Some d
    \<and> length h \<le> a1 \<and> length h1 \<le> a2
    \<and> flow_at (dict_setitem a1 k v h1) r = Some f
    \<and> (\<exists>a3 h3. extract_features_at r (dict_setitem a1 k v h1) = (Inr a3, h3)
                 \<and> dict_at h3 a3 = Some d)"
proof -
  obtain d where d: "extract_features f = Inr d"
    using extract_features_total by blast
  define new where "new = [IntList (fwd_packet_sizes f @ bwd_packet_sizes f),
                           FloatList (fwd_iat f @ bwd_iat f), Dict d]"
  define h1 where "h1 = h @ new"
  define h2 where "h2 = h1 @ new"
  define a1 where "a1 = length h + 2"
  define a2 where "a2 = length h1 + 2"
  define h1' where "h1' = dict_setitem a1 k v h1"
  have f1: "flow_at h1 r = Some f"
    unfolding h1_def by (rule flow_at_append[OF assms])
  have f2: "flow_at h2 r = Some f"
    unfolding h2_def by (rule flow_at_append[OF f1])
  have f1': "flow_at h1' r = Some f"
    unfolding h1'_def by (rule flow_at_setitem[OF f1])
  have c1: "extract_features_at r h = (Inr a1, h1)"
    using extract_features_at_result[OF assms d] by (simp add: a1_def h1_def new_def)
  have c2: "extract_features_at r h1 = (Inr a2, h2)"
    using extract_features_at_result[OF f1 d] by (simp add: a2_def h2_def new_def)
  have c3: "extract_features_at r h1' = (Inr (length h1' + 2), h1' @ new)"
    using extract_features_at_result[OF f1' d] by (simp add: new_def)
  have d1: "dict_at h1 a1 = Some d"
    by (simp add: dict_at_def lookup_def h1_def new_def a1_def nth_append)
  have d2: "dict_at h2 a2 = Some d"
    by (simp add: dict_at_def lookup_def h2_def new_def a2_def nth_append)
  have d21: "dict_at h2 a1 = Some d"
    unfolding h2_def by (rule dict_at_append[OF d1])
  have d3: "dict_at (h1' @ new) (length h1' + 2) = Some d"
    by (simp add: dict_at_def lookup_def new_def nth_append)
  have t: "take (length h) h1 = h" "take (length h1) h2 = h1"
    by (simp_all add: h1_def h2_def)
  have l: "length h \<le> a1" "length h1 \<le> a2"
    by (simp_all add: a1_def a2_def)
  from c1 c2 t f1 f2 d d1 d2 d21 l f1' c3 d3 show ?thesis
    unfolding h1'_def by blast
qed

lemma single_packet_heap_flow: "flow_at single_packet_heap 4 = Some single_packet_flow"
  by (simp add: flow_at_def single_packet_heap_def lookup_def int_list_at_def float_list_at_def
      single_packet_flow_eq)

theorem extract_features_at_pure_witness:
  "flow_at single_packet_heap 4 = Some single_packet_flow
   \<and> fst (extract_features_at 4 single_packet_heap) = Inr 7
   \<and> take 5 (snd (extract_features_at 4 single_packet_heap)) = single_packet_heap
   \<and> fst (extract_features_at 4 (snd (extract_features_at 4 single_packet_heap))) = Inr 10
   \<and> dict_at (snd (extract_features_at 4 (snd (extract_features_at 4 single_packet_heap)))) 10
       = dict_at (snd (extract_features_at 4 single_packet_heap)) 7"
proof -
  note f = single_packet_heap_flow
  have n: "length single_packet_heap = 5"
    by (simp add: single_packet_heap_def)
  from extract_features_at_pure[OF f]
  obtain a1 a2 d h1 h2 where
    c1: "extract_features_at 4 single_packet_heap = (Inr a1, h1)"
    and c2: "extract_features_at 4 h1 = (Inr a2, h2)"
    and t: "take (length single_packet_heap) h1 = single_packet_heap"
    and f1: "flow_at h1 4 = Some single_packet_flow"
    and d: "extract_features single_packet_flow = Inr d"
    and d1: "dict_at h1 a1 = Some d" and d2: "dict_at h2 a2 = Some d"
    by blast
  from extract_features_at_result[OF f d] c1
  have a1: "a1 = 7" and h1: "length h1 = 8" by (auto simp: n)
  from extract_features_at_result[OF f1 d] c2 h1
  have a2: "a2 = 10" by auto
  from f c1 c2 t d1 d2 a1 a2 n show ?thesis by simp
qed

section \<open>The classifier\<close>

lemma skewed_num:
  "0 \<le> b \<Longrightarrow> skewed a (Num b) thr = Inr (b = 0 \<or> a / (b + 1) > thr)"
  by (simp add: skewed_def py_eq0_def bindE_def as_num_def truediv_def)

lemma nonneg_numE:
  assumes "nonneg_num v"
  obtains x where "v = Num x" "0 \<le> x"
  using assms by (cases v) (simp_all add: nonneg_num_def)

lemma heuristic_detection_eq:
  assumes "dict_get fs ''flow_packets_per_sec'' (Num 0) = Num pps"
    and "dict_get fs ''syn_flag_count'' (Num 0) = Num syn"
    and "dict_get fs ''ack_flag_count'' (Num 0) = Num ack" and "0 \<le> ack"
    and "dict_get fs ''flow_bytes_per_sec'' (Num 0) = Num bps"
    and "dict_get fs ''avg_pkt_size'' (Num 0) = Num avg"
    and "dict_get fs ''total_fwd_packets'' (Num 0) = Num fwd"
    and "dict_get fs ''total_bwd_packets'' (Num 0) = Num bwd" and "0 \<le> bwd"
  shows "heuristic_detection fs =
    Inr (let rs = heuristic_reasons pps syn ack bps avg fwd bwd
         in Heuristic (rs \<noteq> []) (if rs \<noteq> [] then ''DDoS'' else ''BENIGN'')
              (min (real (length rs) / 3) 1) rs)"
  unfolding heuristic_detection_def heuristic_reasons_def
  using assms
  by (auto simp add: bindE_def as_num_def skewed_num Let_def)

lemma numeric_snapshot_values:
  assumes "numeric_snapshot fs"
  obtains pps syn ack bps avg fwd bwd where
    "dict_get fs ''flow_packets_per_sec'' (Num 0) = Num pps"
    "dict_get fs ''syn_flag_count'' (Num 0) = Num syn"
    "dict_get fs ''ack_flag_count'' (Num 0) = Num ack" "0 \<le> ack"
    "dict_get fs ''flow_bytes_per_sec'' (Num 0) = Num bps"
    "dict_get fs ''avg_pkt_size'' (Num 0) = Num avg"
    "dict_get fs ''total_fwd_packets'' (Num 0) = Num fwd"
    "dict_get fs ''total_bwd_packets'' (Num 0) = Num bwd" "0 \<le> bwd"
proof -
  from assms have n: "nonneg_num (dict_get fs ''flow_packets_per_sec'' (Num 0))"
    "nonneg_num (dict_get fs ''syn_flag_count'' (Num 0))"
    "nonneg_num (dict_get fs ''ack_flag_count'' (Num 0))"
    "nonneg_num (dict_get fs ''flow_bytes_per_sec'' (Num 0))"
    "nonneg_num (dict_get fs ''avg_pkt_size'' (Num 0))"
    "nonneg_num (dict_get fs ''total_fwd_packets'' (Num 0))"
    "nonneg_num (dict_get fs ''total_bwd_packets'' (Num 0))"
    by (simp_all add: numeric_snapshot_def heuristic_keys_def)
  from n(1) obtain pps where 1: "dict_get fs ''flow_packets_per_sec'' (Num 0) = Num pps"
    by (rule nonneg_numE)
  from n(2) obtain syn where 2: "dict_get fs ''syn_flag_count'' (Num 0) = Num syn"
    by (rule nonneg_numE)
  from n(3) obtain ack where 3: "dict_get fs ''ack_flag_count'' (Num 0) = Num ack" "0 \<le> ack"
    by (rule nonneg_numE)
  from n(4) obtain bps where 4: "dict_get fs ''flow_bytes_per_sec'' (Num 0) = Num bps"
    by (rule nonneg_numE)
  from n(5) obtain avg where 5: "dict_get fs ''avg_pkt_size'' (Num 0) = Num avg"
    by (rule nonneg_numE)
  from n(6) obtain fwd where 6: "dict_get fs ''total_fwd_packets'' (Num 0) = Num fwd"
    by (rule nonneg_numE)
  from n(7) obtain bwd where 7: "dict_get fs ''total_bwd_packets'' (Num 0) = Num bwd" "0 \<le> bwd"
    by (rule nonneg_numE)
  from 1 2 3 4 5 6 7 show thesis by (rule that)
qed

lemma heuristic_detection_total:
  assumes "numeric_snapshot fs"
  shows "\<exists>m l c rs. heuristic_detection fs = Inr (Heuristic m l c rs)"
proof -
  from assms obtain pps syn ack bps avg fwd bwd where
    v: "dict_get fs ''flow_packets_per_sec'' (Num 0) = Num pps"
    "dict_get fs ''syn_flag_count'' (Num 0) = Num syn"
    "dict_get fs ''ack_flag_count'' (Num 0) = Num ack" "0 \<le> ack"
    "dict_get fs ''flow_bytes_per_sec'' (Num 0) = Num bps"
    "dict_get fs ''avg_pkt_size'' (Num 0) = Num avg"
    "dict_get fs ''total_fwd_packets'' (Num 0) = Num fwd"
    "dict_get fs ''total_bwd_packets'' (Num 0) = Num bwd" "0 \<le> bwd"
    by (rule numeric_snapshot_values)
  show ?thesis
    unfolding heuristic_detection_eq[OF v] Let_def by blast
qed

lemma is_syn_flood_reasons:
  "list_ex is_syn_flood (heuristic_reasons pps syn ack bps avg fwd bwd)
     = (syn > 50 \<and> (ack = 0 \<or> syn / (ack + 1) > 10))"
  by (simp add: heuristic_reasons_def)

text \<open>
  C1, as stated: the SYN-flood reason is given exactly when the SYN count exceeds 50 and
  the ratio of SYNs to ACKs exceeds 10. It fails on 55 SYNs and 5 ACKs: the ratio is 11,
  and the snapshot is classified as benign with no reason.
\<close>

theorem syn_flood_counterexample:
  "heuristic_detection [(''syn_flag_count'', Num 55), (''ack_flag_count'', Num 5)]
     = Inr (Heuristic False ''BENIGN'' 0 [])
   \<and> (55::real) > 50 \<and> (55::real) / 5 > 10"
proof -
  have "heuristic_detection [(''syn_flag_count'', Num 55), (''ack_flag_count'', Num 5)]
     = Inr (Heuristic False ''BENIGN'' 0 [])"
    by (subst heuristic_detection_eq[of _ 0 55 5 0 0 0 0])
       (simp_all add: dict_get_def heuristic_reasons_def)
  then show ?thesis by simp
qed

text \<open>
  C1, amended: on every snapshot the rules can read, the heuristic classifier gives the
  SYN-flood reason exactly when the SYN count exceeds 50 and either there is no ACK or
  the SYN count divided by the ACK count plus one exceeds 10.
\<close>

theorem syn_flood_rule:
  assumes "numeric_snapshot fs"
    and "dict_get fs ''syn_flag_count'' (Num 0) = Num syn"
    and "dict_get fs ''ack_flag_count'' (Num 0) = Num ack"
  shows "\<exists>r. heuristic_detection fs = Inr r
    \<and> (list_ex is_syn_flood (reasons_of r) \<longleftrightarrow> syn > 50 \<and> (ack = 0 \<or> syn / (ack + 1) > 10))"
proof -
  from assms(1) obtain pps syn' ack' bps avg fwd bwd where
    v: "dict_get fs ''flow_packets_per_sec'' (Num 0) = Num pps"
    "dict_get fs ''syn_flag_count'' (Num 0) = Num syn'"
    "dict_get fs ''ack_flag_count'' (Num 0) = Num ack'" "0 \<le> ack'"
    "dict_get fs ''flow_bytes_per_sec'' (Num 0) = Num bps"
    "dict_get fs ''avg_pkt_size'' (Num 0) = Num avg"
    "dict_get fs ''total_fwd_packets'' (Num 0) = Num fwd"
    "dict_get fs ''total_bwd_packets'' (Num 0) = Num bwd" "0 \<le> bwd"
    by (rule numeric_snapshot_values)
  from v(2,3) assms(2,3) have e: "syn' = syn" "ack' = ack" by simp_all
  show ?thesis
    unfolding heuristic_detection_eq[OF v] Let_def
    by (simp add: reasons_of_def is_syn_flood_reasons e)
qed

theorem syn_flood_rule_witness:
  "numeric_snapshot [(''syn_flag_count'', Num 80), (''ack_flag_count'', Num 2)]
   \<and> (\<exists>r. heuristic_detection [(''syn_flag_count'', Num 80), (''ack_flag_count'', Num 2)] = Inr r
         \<and> list_ex is_syn_flood (reasons_of r))"
proof -
  have n: "numeric_snapshot [(''syn_flag_count'', Num 80), (''ack_flag_count'', Num 2)]"
    by (simp add: numeric_snapshot_def heuristic_keys_def nonneg_num_def dict_get_def)
  have s: "dict_get [(''syn_flag_count'', Num 80), (''ack_flag_count'', Num 2)]
             ''syn_flag_count'' (Num 0) = Num 80"
    by (simp add: dict_get_def)
  have a: "dict_get [(''syn_flag_count'', Num 80), (''ack_flag_count'', Num 2)]
             ''ack_flag_count'' (Num 0) = Num 2"
    by (simp add: dict_get_def)
  from syn_flood_rule[OF n s a] n show ?thesis by simp
qed

text \<open>
  C4, as stated: whatever fails inside the model path, \<^verbatim>\<open>predict\<close> returns the result
  of the heuristic rules and raises nothing. It fails when the model's \<^verbatim>\<open>predict\<close>
  raises \<^verbatim>\<open>KeyboardInterrupt\<close>: the handler is \<^verbatim>\<open>except Exception\<close>, the exception
  leaves \<^verbatim>\<open>predict\<close>, and the result that the rules would give is not returned.
\<close>

theorem predict_propagates_counterexample:
  "predict_with_model (model interrupted_classifier)
     [(''flow_packets_per_sec'', Num 1500), (''avg_pkt_size'', Num 500)]
     = Inl KeyboardInterrupt
   \<and> predict interrupted_classifier
        [(''flow_packets_per_sec'', Num 1500), (''avg_pkt_size'', Num 500)] None
       = Inl KeyboardInterrupt
   \<and> heuristic_detection [(''flow_packets_per_sec'', Num 1500), (''avg_pkt_size'', Num 500)]
       = Inr (Heuristic True ''DDoS'' (1 / 3) [HighPacketRate 1500])"
proof -
  let ?fs = "[(''flow_packets_per_sec'', Num 1500), (''avg_pkt_size'', Num 500)]"
  have m: "predict_with_model (model interrupted_classifier) ?fs = Inl KeyboardInterrupt"
    by (simp add: predict_with_model_def interrupted_classifier_def bindE_def)
  have u: "\<not> use_heuristics interrupted_classifier"
    by (simp add: interrupted_classifier_def)
  have h: "heuristic_detection ?fs = Inr (Heuristic True ''DDoS'' (1 / 3) [HighPacketRate 1500])"
    by (subst heuristic_detection_eq[of _ 1500 0 0 0 500 0 0])
       (simp_all add: dict_get_def heuristic_reasons_def)
  from m u h show ?thesis
    by (simp add: predict_def is_Exception_def)
qed

text \<open>
  C4, amended: on every snapshot whose entries read by the rules are numbers that are
  not negative, \<^verbatim>\<open>predict\<close> in heuristic mode returns the result of the rules; in
  model mode it returns the model's result when the model path returns one; when the
  model path raises an \<^verbatim>\<open>Exception\<close> and the handler's message is printed, it returns
  the result of the rules for that call and raises nothing; and an exception of the
  model path that is not an \<^verbatim>\<open>Exception\<close> leaves \<^verbatim>\<open>predict\<close>.
\<close>

theorem predict_fallback:
  assumes "numeric_snapshot fs"
  shows "(use_heuristics c \<longrightarrow>
           predict c fs printed = heuristic_detection fs
           \<and> (\<exists>r. heuristic_detection fs = Inr r))
    \<and> (\<not> use_heuristics c \<longrightarrow>
         (case predict_with_model (model c) fs of
            Inr r \<Rightarrow> predict c fs printed = Inr r
          | Inl e \<Rightarrow>
              if is_Exception e
              then predict c fs None = heuristic_detection fs
                   \<and> (\<exists>r. heuristic_detection fs = Inr r)
              else predict c fs printed = Inl e))"
proof -
  from heuristic_detection_total[OF assms]
  obtain m l cf rs where h: "heuristic_detection fs = Inr (Heuristic m l cf rs)" by blast
  show ?thesis
    by (cases "predict_with_model (model c) fs") (simp_all add: predict_def h)
qed

theorem predict_fallback_witness:
  "numeric_snapshot [(''flow_packets_per_sec'', Num 1500), (''avg_pkt_size'', Num 500)]
   \<and> predict_with_model (model failing_scaler_classifier)
        [(''flow_packets_per_sec'', Num 1500), (''avg_pkt_size'', Num 500)]
       = Inl OtherException
   \<and> predict failing_scaler_classifier
        [(''flow_packets_per_sec'', Num 1500), (''avg_pkt_size'', Num 500)] None
       = Inr (Heuristic True ''DDoS'' (1 / 3) [HighPacketRate 1500])"
proof -
  let ?fs = "[(''flow_packets_per_sec'', Num 1500), (''avg_pkt_size'', Num 500)]"
  have n: "numeric_snapshot ?fs"
    by (simp add: numeric_snapshot_def heuristic_keys_def nonneg_num_def dict_get_def)
  have m: "predict_with_model (model failing_scaler_classifier) ?fs = Inl OtherException"
    by (simp add: predict_with_model_def failing_scaler_classifier_def bindE_def)
  have u: "\<not> use_heuristics failing_scaler_classifier"
    by (simp add: failing_scaler_classifier_def)
  have h: "heuristic_detection ?fs = Inr (Heuristic True ''DDoS'' (1 / 3) [HighPacketRate 1500])"
    by (subst heuristic_detection_eq[of _ 1500 0 0 0 500 0 0])
       (simp_all add: dict_get_def heuristic_reasons_def)
  from predict_fallback[OF n, of failing_scaler_classifier None] u m h n
  show ?thesis by (simp add: is_Exception_def)
qed


section \<open>The pipeline\<close>








































end
